theory Spec2Isabelle
  imports Main
begin

section \<open>Composable rules: the data model\<close>

text \<open>
  The library (\<^verbatim>\<open>src/index.ts\<close>, with the older \<^verbatim>\<open>src/index.js\<close> whose evaluator
  is the same) builds trees of rules and evaluates them against a facts object and a
  value. Matchers, actions, mappers and transformers are functions supplied by the
  caller; any of them may throw. A call therefore returns a sum: \<open>Inl\<close> what was
  thrown, \<open>Inr\<close> what was returned.

  \<open>Thrown e\<close> is a value thrown by a caller's function; \<open>TypeError\<close> is the error the
  JavaScript runtime itself raises (a property read on \<^verbatim>\<open>undefined\<close> or \<^verbatim>\<open>null\<close>, a call of
  something that is not a function, destructuring \<^verbatim>\<open>null\<close>).
\<close>

datatype 'e failure = Thrown 'e | TypeError

type_synonym ('e, 'f, 'v) Matcher = "'f \<Rightarrow> 'v \<Rightarrow> 'e failure + bool"
type_synonym ('e, 'f) Mapper = "'f \<Rightarrow> 'e failure + 'f"
type_synonym ('e, 'f, 'v) Action = "'f \<Rightarrow> 'v \<Rightarrow> 'e failure + 'v"
type_synonym ('e, 'v) Transformer = "'v \<Rightarrow> 'e failure + 'v"

text \<open>
  The union type \<^verbatim>\<open>Rule\<close>. Six variants carry a fixed \<^verbatim>\<open>type\<close> tag; a plain rule
  has an optional tag (\<^verbatim>\<open>type?: "plain"\<close>), kept here as any optional string, since the
  evaluator's \<^verbatim>\<open>switch\<close> reads it.
\<close>

datatype ('e, 'f, 'v) Rule =
    PlainRule (ptype: "string option") (matcher: "('e, 'f, 'v) Matcher")
      (action: "('e, 'f, 'v) Action")
  | InjectedRule (mapper: "('e, 'f) Mapper") (childRule: "('e, 'f, 'v) Rule")
  | TransformedRule (transformer: "('e, 'v) Transformer") (rule: "('e, 'f, 'v) Rule")
  | IfRule (matcher: "('e, 'f, 'v) Matcher") (rule: "('e, 'f, 'v) Rule")
  | AllRule (rules: "('e, 'f, 'v) Rule list")
  | FirstRule (rules: "('e, 'f, 'v) Rule list")
  | ChainRule (rules: "('e, 'f, 'v) Rule list")

text \<open>The \<^verbatim>\<open>type\<close> field of a node.\<close>

fun rule_type :: "('e, 'f, 'v) Rule \<Rightarrow> string option" where
  "rule_type (PlainRule t m a) = t"
| "rule_type (InjectedRule mp r) = Some ''injected''"
| "rule_type (TransformedRule tr r) = Some ''transformed''"
| "rule_type (IfRule m r) = Some ''if''"
| "rule_type (AllRule rs) = Some ''all''"
| "rule_type (FirstRule rs) = Some ''first''"
| "rule_type (ChainRule rs) = Some ''chain''"

text \<open>The tags that the \<^verbatim>\<open>switch\<close> of \<^verbatim>\<open>runHelp\<close> has a \<^verbatim>\<open>case\<close> for, in its order.\<close>

definition recognised_tags :: "string list" where
  "recognised_tags = [''injected'', ''transformed'', ''if'', ''all'', ''first'', ''chain'']"

record 'v RuleResult =
  foundMatch :: bool
  "value" :: 'v

section \<open>Matchers\<close>

definition always :: "('e, 'f, 'v) Matcher" where
  "always facts v = Inr True"

definition not_matcher :: "('e, 'f, 'v) Matcher \<Rightarrow> ('e, 'f, 'v) Matcher" where
  "not_matcher m facts v = (case m facts v of Inl e \<Rightarrow> Inl e | Inr b \<Rightarrow> Inr (\<not> b))"

text \<open>\<^verbatim>\<open>Array.prototype.some\<close>: in order, true at the first check that holds.\<close>

fun one_matcher :: "('e, 'f, 'v) Matcher list \<Rightarrow> ('e, 'f, 'v) Matcher" where
  "one_matcher [] facts v = Inr False"
| "one_matcher (check # matchers) facts v =
     (case check facts v of
        Inl e \<Rightarrow> Inl e
      | Inr b \<Rightarrow> if b then Inr True else one_matcher matchers facts v)"

text \<open>\<^verbatim>\<open>Array.prototype.every\<close>: in order, false at the first check that fails.\<close>

fun all_matcher :: "('e, 'f, 'v) Matcher list \<Rightarrow> ('e, 'f, 'v) Matcher" where
  "all_matcher [] facts v = Inr True"
| "all_matcher (check # matchers) facts v =
     (case check facts v of
        Inl e \<Rightarrow> Inl e
      | Inr b \<Rightarrow> if b then all_matcher matchers facts v else Inr False)"

section \<open>Combining and enhancing rules\<close>

definition injectFacts :: "('e, 'f) Mapper \<Rightarrow> ('e, 'f, 'v) Rule \<Rightarrow> ('e, 'f, 'v) Rule" where
  "injectFacts mp r = InjectedRule mp r"

definition transformOutput ::
  "('e, 'v) Transformer \<Rightarrow> ('e, 'f, 'v) Rule \<Rightarrow> ('e, 'f, 'v) Rule" where
  "transformOutput fn r = TransformedRule fn r"

definition applyIf :: "('e, 'f, 'v) Matcher \<Rightarrow> ('e, 'f, 'v) Rule \<Rightarrow> ('e, 'f, 'v) Rule" where
  "applyIf m r = IfRule m r"

definition applyAll :: "('e, 'f, 'v) Rule list \<Rightarrow> ('e, 'f, 'v) Rule" where
  "applyAll rs = AllRule rs"

definition applyFirst :: "('e, 'f, 'v) Rule list \<Rightarrow> ('e, 'f, 'v) Rule" where
  "applyFirst rs = FirstRule rs"

definition applyChain :: "('e, 'f, 'v) Rule list \<Rightarrow> ('e, 'f, 'v) Rule" where
  "applyChain rs = ChainRule rs"

section \<open>Running rules\<close>

text \<open>
  \<^verbatim>\<open>runHelp\<close> dispatches on \<^verbatim>\<open>rule.type\<close>. A node of one of the six composite
  variants goes to its \<^verbatim>\<open>case\<close>. A plain-shaped node \<^verbatim>\<open>{type, matcher, action}\<close> goes to
  \<^verbatim>\<open>default\<close> unless its tag is one of the six; then the \<^verbatim>\<open>case\<close> of that
  tag runs on an object that has none of the fields it reads: \<^verbatim>\<open>rule.mapper\<close> is not a
  function, \<^verbatim>\<open>rule.rule\<close> and \<^verbatim>\<open>rule.rules\<close> are \<^verbatim>\<open>undefined\<close>, and the runtime raises
  a TypeError (for \<^verbatim>\<open>"if"\<close>, after the node's matcher has returned true).

  \<^verbatim>\<open>rules.reduce(reducer, state)\<close> is the recursion of \<open>runAllMatchingRules\<close> on the list,
  with the accumulator as the state; a throw inside the reducer ends it.
\<close>

fun runHelp ::
    "('e, 'f, 'v) Rule \<Rightarrow> 'f \<Rightarrow> 'v RuleResult \<Rightarrow> 'e failure + 'v RuleResult"
  and runAllMatchingRules ::
    "('e, 'f, 'v) Rule list \<Rightarrow> 'f \<Rightarrow> 'v RuleResult \<Rightarrow> 'e failure + 'v RuleResult"
  and runFirstMatchingRule ::
    "('e, 'f, 'v) Rule list \<Rightarrow> 'f \<Rightarrow> 'v RuleResult \<Rightarrow> 'e failure + 'v RuleResult"
  and runChainOfRules ::
    "('e, 'f, 'v) Rule list \<Rightarrow> 'f \<Rightarrow> 'v RuleResult \<Rightarrow> 'e failure + 'v RuleResult"
where
  "runHelp (InjectedRule mp child) facts state =
     (case mp facts of
        Inl e \<Rightarrow> Inl e
      | Inr facts' \<Rightarrow> runHelp child facts' state)"
| "runHelp (TransformedRule tr r) facts state =
     (case runHelp r facts state of
        Inl e \<Rightarrow> Inl e
      | Inr res \<Rightarrow>
          if foundMatch res
          then (case tr (value res) of
                  Inl e \<Rightarrow> Inl e
                | Inr v \<Rightarrow> Inr \<lparr>foundMatch = foundMatch res, value = v\<rparr>)
          else Inr \<lparr>foundMatch = foundMatch res, value = value res\<rparr>)"
| "runHelp (IfRule m subRule) facts state =
     (case m facts (value state) of
        Inl e \<Rightarrow> Inl e
      | Inr b \<Rightarrow>
          if b then runHelp subRule facts state
          else Inr \<lparr>foundMatch = False, value = value state\<rparr>)"
| "runHelp (AllRule rs) facts state = runAllMatchingRules rs facts state"
| "runHelp (FirstRule rs) facts state = runFirstMatchingRule rs facts state"
| "runHelp (ChainRule rs) facts state = runChainOfRules rs facts state"
| "runHelp (PlainRule t m a) facts state =
     (if t = Some ''injected'' then Inl TypeError
      else if t = Some ''transformed'' then Inl TypeError
      else if t = Some ''if'' then
        (case m facts (value state) of
           Inl e \<Rightarrow> Inl e
         | Inr b \<Rightarrow>
             if b then Inl TypeError
             else Inr \<lparr>foundMatch = False, value = value state\<rparr>)
      else if t = Some ''all'' then Inl TypeError
      else if t = Some ''first'' then Inl TypeError
      else if t = Some ''chain'' then Inl TypeError
      else
        (case m facts (value state) of
           Inl e \<Rightarrow> Inl e
         | Inr b \<Rightarrow>
             if b
             then (case a facts (value state) of
                     Inl e \<Rightarrow> Inl e
                   | Inr v \<Rightarrow> Inr \<lparr>foundMatch = True, value = v\<rparr>)
             else Inr \<lparr>foundMatch = False, value = value state\<rparr>))"
| "runAllMatchingRules [] facts state = Inr state"
| "runAllMatchingRules (currentRule # rs) facts currentState =
     (case runHelp currentRule facts currentState of
        Inl e \<Rightarrow> Inl e
      | Inr newState \<Rightarrow>
          runAllMatchingRules rs facts
            \<lparr>foundMatch = foundMatch currentState \<or> foundMatch newState,
             value = value newState\<rparr>)"
| "runFirstMatchingRule [] facts state = Inr state"
| "runFirstMatchingRule (nextRule # remainingRules) facts state =
     (case runHelp nextRule facts state of
        Inl e \<Rightarrow> Inl e
      | Inr res \<Rightarrow>
          if foundMatch res
          then Inr \<lparr>foundMatch = foundMatch res, value = value res\<rparr>
          else runFirstMatchingRule remainingRules facts state)"
| "runChainOfRules [] facts state = Inr state"
| "runChainOfRules (nextRule # remainingRules) facts state =
     (case runHelp nextRule facts state of
        Inl e \<Rightarrow> Inl e
      | Inr res \<Rightarrow>
          if foundMatch res
          then runChainOfRules remainingRules facts
                 \<lparr>foundMatch = foundMatch res, value = value res\<rparr>
          else Inr state)"

text \<open>
  The entry points, at their full three arguments (\<^verbatim>\<open>curryToArity(fn, 3)\<close> called with
  three arguments calls \<^verbatim>\<open>fn\<close> with them). The pair \<^verbatim>\<open>[err, result]\<close> is a pair of
  options, \<open>None\<close> for \<^verbatim>\<open>null\<close>.

  \<^verbatim>\<open>detailedRun\<close> wraps the evaluation in \<^verbatim>\<open>try\<close>/\<^verbatim>\<open>catch\<close>. \<^verbatim>\<open>run\<close> destructures
  \<^verbatim>\<open>const [err, { value }] = detailedRun(...)\<close>: when the second component is
  \<^verbatim>\<open>null\<close> the pattern \<^verbatim>\<open>{ value }\<close> raises a TypeError, outside any \<^verbatim>\<open>try\<close>.
\<close>

definition detailedRun ::
  "('e, 'f, 'v) Rule \<Rightarrow> 'f \<Rightarrow> 'v \<Rightarrow> 'e failure option \<times> 'v RuleResult option" where
  "detailedRun r facts initialValue =
     (let state = \<lparr>foundMatch = False, value = initialValue\<rparr> in
      case runHelp r facts state of
        Inr result \<Rightarrow> (None, Some result)
      | Inl err \<Rightarrow> (Some err, None))"

definition run ::
  "('e, 'f, 'v) Rule \<Rightarrow> 'f \<Rightarrow> 'v \<Rightarrow> 'e failure + ('e failure option \<times> 'v)" where
  "run r facts initialValue =
     (case detailedRun r facts initialValue of
        (err, Some result) \<Rightarrow> Inr (err, value result)
      | (err, None) \<Rightarrow> Inl TypeError)"

section \<open>Notions used to state the properties\<close>

text \<open>
  \<^verbatim>\<open>Array.prototype.reduce\<close> with an initial value, for a callback that may throw, and
  the callback \<^verbatim>\<open>reducer\<close> that \<^verbatim>\<open>runAllMatchingRules\<close> passes to it.
\<close>

fun reduce :: "('s \<Rightarrow> 'a \<Rightarrow> 'e failure + 's) \<Rightarrow> 'a list \<Rightarrow> 's \<Rightarrow> 'e failure + 's" where
  "reduce cb [] acc = Inr acc"
| "reduce cb (x # xs) acc =
     (case cb acc x of Inl e \<Rightarrow> Inl e | Inr acc' \<Rightarrow> reduce cb xs acc')"

definition reducer ::
  "'f \<Rightarrow> 'v RuleResult \<Rightarrow> ('e, 'f, 'v) Rule \<Rightarrow> 'e failure + 'v RuleResult" where
  "reducer facts currentState currentRule =
     (case runHelp currentRule facts currentState of
        Inl e \<Rightarrow> Inl e
      | Inr newState \<Rightarrow>
          Inr \<lparr>foundMatch = foundMatch currentState \<or> foundMatch newState,
               value = value newState\<rparr>)"

text \<open>
  The results \<^verbatim>\<open>newState\<close> that the children of an all-node return, in order, each
  child run on the accumulator that the fold has reached.
\<close>

fun childResults ::
  "('e, 'f, 'v) Rule list \<Rightarrow> 'f \<Rightarrow> 'v RuleResult \<Rightarrow> 'e failure + 'v RuleResult list" where
  "childResults [] facts state = Inr []"
| "childResults (r # rs) facts state =
     (case runHelp r facts state of
        Inl e \<Rightarrow> Inl e
      | Inr newState \<Rightarrow>
          (case childResults rs facts
                  \<lparr>foundMatch = foundMatch state \<or> foundMatch newState,
                   value = value newState\<rparr> of
             Inl e \<Rightarrow> Inl e
           | Inr ns \<Rightarrow> Inr (newState # ns)))"


section \<open>Rules of the test suite\<close>

text \<open>
  The fixtures of \<^verbatim>\<open>index.test.ts\<close>, used below at concrete inputs. \<^verbatim>\<open>makeRule\<close>'s
  action is \<^verbatim>\<open>list.concat(value)\<close>, on strings and on arrays.
\<close>

definition passMatcher :: "('e, 'f, 'v) Matcher" where
  "passMatcher facts v = Inr True"

definition failMatcher :: "('e, 'f, 'v) Matcher" where
  "failMatcher facts v = Inr False"

definition makeRule :: "bool \<Rightarrow> 'a list \<Rightarrow> ('e, 'f, 'a list) Rule" where
  "makeRule pass x =
     PlainRule None (\<lambda>facts list. Inr pass) (\<lambda>facts list. Inr (list @ x))"

definition boomRule :: "(string, 'f, 'v) Rule" where
  "boomRule = PlainRule None passMatcher (\<lambda>facts v. Inl (Thrown ''BOOM!''))"

section \<open>Matcher combinators\<close>

text \<open>
  C8. Negating a matcher twice gives back the matcher: for every matcher \<open>m\<close>, facts
  \<open>f\<close> and value \<open>v\<close>, \<open>not (not m) (f, v)\<close> is \<open>m (f, v)\<close>, a thrown error included.
\<close>

theorem not_not_matcher: "not_matcher (not_matcher m) f v = m f v"
  by (simp add: not_matcher_def split: sum.splits)

text \<open>
  C9. On the empty list \<open>all\<close> returns true and \<open>one\<close> returns false, whatever the
  facts and the value; and the empty list is neutral: conjoining \<open>all []\<close> with a
  matcher, or disjoining \<open>one []\<close> with it, gives the matcher's own answer.
\<close>

theorem empty_matcher_lists:
  "all_matcher [] f v = Inr True \<and>
   one_matcher [] f v = Inr False \<and>
   all_matcher [all_matcher [], m] f v = m f v \<and>
   one_matcher [one_matcher [], m] f v = m f v"
  by (simp split: sum.splits)

section \<open>Facts about the evaluator\<close>

text \<open>
  The list evaluators hand back either a matched result or the state they were given;
  a chain run on a state that is already matched stays matched.
\<close>

lemma runFirst_result:
  "runFirstMatchingRule rs facts state = Inr res \<Longrightarrow> foundMatch res \<or> res = state"
  by (induction rs) (auto split: sum.splits if_splits)

lemma runChain_keeps_found:
  "foundMatch state \<Longrightarrow> runChainOfRules rs facts state = Inr res \<Longrightarrow> foundMatch res"
proof (induction rs arbitrary: state)
  case Nil
  then show ?case by simp
next
  case (Cons r rs)
  show ?case
  proof (cases "runHelp r facts state")
    case (Inl e)
    with Cons.prems show ?thesis by simp
  next
    case (Inr new)
    show ?thesis
    proof (cases "foundMatch new")
      case True
      with Inr Cons.prems(2)
      have "runChainOfRules rs facts \<lparr>foundMatch = True, value = value new\<rparr> = Inr res"
        by simp
      then show ?thesis using Cons.IH[of "\<lparr>foundMatch = True, value = value new\<rparr>"] by simp
    next
      case False
      with Inr Cons.prems show ?thesis by simp
    qed
  qed
qed

lemma runChain_result:
  "runChainOfRules rs facts state = Inr res \<Longrightarrow> foundMatch res \<or> res = state"
proof (cases rs)
  case Nil
  assume "runChainOfRules rs facts state = Inr res"
  with Nil show ?thesis by simp
next
  case (Cons r rs')
  assume "runChainOfRules rs facts state = Inr res"
  with Cons show ?thesis
    by (auto split: sum.splits if_splits dest: runChain_keeps_found[rotated])
qed

lemma runAll_unmatched:
  assumes kids: "\<forall>r \<in> set rs. \<forall>s res'. runHelp r facts s = Inr res' \<longrightarrow> \<not> foundMatch res' \<longrightarrow>
                  value res' = value s"
    and run: "runAllMatchingRules rs facts state = Inr res"
    and unmatched: "\<not> foundMatch res"
  shows "value res = value state \<and> \<not> foundMatch state"
  using kids run
proof (induction rs arbitrary: state)
  case Nil
  with unmatched show ?case by simp
next
  case (Cons r rs)
  from Cons.prems(2) obtain new where
    new: "runHelp r facts state = Inr new" and
    rest: "runAllMatchingRules rs facts
             \<lparr>foundMatch = foundMatch state \<or> foundMatch new, value = value new\<rparr> = Inr res"
    by (auto split: sum.splits)
  from Cons.prems(1) have sub: "\<forall>r \<in> set rs. \<forall>s res'. runHelp r facts s = Inr res' \<longrightarrow>
      \<not> foundMatch res' \<longrightarrow> value res' = value s"
    by simp
  have step: "value res = value new \<and> \<not> (foundMatch state \<or> foundMatch new)"
    using Cons.IH[OF sub rest] by simp
  moreover from Cons.prems(1) new step have "value new = value state"
    by simp
  ultimately show ?case by simp
qed

text \<open>A result that is not a match carries the value of the state the node was run on.\<close>

lemma runHelp_unmatched_value:
  "runHelp r facts state = Inr res \<Longrightarrow> \<not> foundMatch res \<Longrightarrow> value res = value state"
proof (induction r arbitrary: facts state res)
  case (PlainRule t m a)
  then show ?case by (auto split: sum.splits if_splits)
next
  case (InjectedRule mp r)
  then show ?case by (auto split: sum.splits)
next
  case (TransformedRule tr r)
  then show ?case by (auto split: sum.splits if_splits)
next
  case (IfRule m r)
  then show ?case by (auto split: sum.splits if_splits)
next
  case (AllRule rs)
  then show ?case using runAll_unmatched[of rs facts state res] by simp
next
  case (FirstRule rs)
  then show ?case using runFirst_result[of rs facts state res] by auto
next
  case (ChainRule rs)
  then show ?case using runChain_result[of rs facts state res] by auto
qed

text \<open>Unmatched rules are skipped by a first-node; a chain carries on from what it was fed.\<close>

lemma runFirst_skips_unmatched:
  "\<forall>c \<in> set pre. \<exists>r. runHelp c facts state = Inr r \<and> \<not> foundMatch r \<Longrightarrow>
   runFirstMatchingRule (pre @ rest) facts state = runFirstMatchingRule rest facts state"
  by (induction pre) auto



text \<open>The fold of an all-node, as \<^verbatim>\<open>reduce\<close> and through its children's results.\<close>

lemma runAll_is_reduce:
  "runAllMatchingRules rs facts state = reduce (reducer facts) rs state"
  by (induction rs arbitrary: state) (auto simp add: reducer_def split: sum.splits)

lemma runAll_childResults:
  "runAllMatchingRules rs facts state =
     (case childResults rs facts state of
        Inl e \<Rightarrow> Inl e
      | Inr ns \<Rightarrow>
          Inr \<lparr>foundMatch = foundMatch state \<or> (\<exists>n \<in> set ns. foundMatch n),
               value = (if ns = [] then value state else value (last ns))\<rparr>)"
proof (induction rs arbitrary: state)
  case Nil
  then show ?case by simp
next
  case (Cons r rs)
  show ?case
  proof (cases "runHelp r facts state")
    case (Inl e)
    then show ?thesis by simp
  next
    case (Inr new)
    let ?s = "\<lparr>foundMatch = foundMatch state \<or> foundMatch new, value = value new\<rparr>"
    show ?thesis
    proof (cases "childResults rs facts ?s")
      case (Inl e)
      with Inr Cons.IH[of ?s] show ?thesis by simp
    next
      case (Inr ns)
      with \<open>runHelp r facts state = Inr new\<close> Cons.IH[of ?s] show ?thesis
        by auto
    qed
  qed
qed

text \<open>
  Run on a state that is not matched, as the entry points do at the root, an all-node
  returns the disjunction of its children's flags.
\<close>

lemma runAll_flag_from_unmatched:
  assumes "\<not> foundMatch state" and "runAllMatchingRules rs facts state = Inr res"
  shows "\<exists>ns. childResults rs facts state = Inr ns \<and>
           foundMatch res = (\<exists>n \<in> set ns. foundMatch n)"
  using assms runAll_childResults[of rs facts state]
  by (auto split: sum.splits)

lemmas fixtures = makeRule_def boomRule_def passMatcher_def failMatcher_def

section \<open>The entry points\<close>

text \<open>
  \<^verbatim>\<open>detailedRun\<close> always returns a pair: the error and \<^verbatim>\<open>null\<close>, or \<^verbatim>\<open>null\<close> and the
  result. \<^verbatim>\<open>run\<close> returns \<^verbatim>\<open>[null, value]\<close> after a successful evaluation and raises a
  TypeError after a failed one.
\<close>

lemma detailedRun_pair:
  "detailedRun r facts v =
     (case runHelp r facts \<lparr>foundMatch = False, value = v\<rparr> of
        Inr result \<Rightarrow> (None, Some result)
      | Inl err \<Rightarrow> (Some err, None))"
  by (simp add: detailedRun_def)

lemma run_after_failure:
  "runHelp r facts \<lparr>foundMatch = False, value = v\<rparr> = Inl err \<Longrightarrow> run r facts v = Inl TypeError"
  by (simp add: run_def detailedRun_def)

lemma run_after_success:
  "runHelp r facts \<lparr>foundMatch = False, value = v\<rparr> = Inr result \<Longrightarrow>
   run r facts v = Inr (None, value result)"
  by (simp add: run_def detailedRun_def)

text \<open>
  C1 (the code departs from it). The claim: \<^verbatim>\<open>run\<close> and \<^verbatim>\<open>detailedRun\<close> never let a
  failure of a matcher, action, mapper or transformer escape; each returns the pair of
  the error and \<^verbatim>\<open>null\<close>. On the rule of the test suite whose action throws
  \<^verbatim>\<open>BOOM!\<close>, \<^verbatim>\<open>detailedRun\<close> does return that pair, and \<^verbatim>\<open>run\<close>, destructuring its
  \<^verbatim>\<open>null\<close> half, raises a TypeError instead of returning.
\<close>

theorem run_raises_on_failure:
  "runHelp boomRule facts \<lparr>foundMatch = False, value = v\<rparr> = Inl (Thrown ''BOOM!'') \<and>
   detailedRun boomRule facts v = (Some (Thrown ''BOOM!''), None) \<and>
   run boomRule facts v = Inl TypeError"
  by (simp add: run_def detailedRun_def boomRule_def passMatcher_def)

section \<open>The combinators\<close>




text \<open>
  C3. A first-node runs every child on the incoming state. If the children before some
  child all return no match and that child returns a match, the node returns that
  child's result, whatever the later children are (they are not evaluated). If no child
  matches, the empty list included, the node returns the incoming state unchanged.
\<close>

theorem applyFirst_runHelp:
  "((\<forall>c \<in> set pre. \<exists>r. runHelp c facts state = Inr r \<and> \<not> foundMatch r) \<and>
    runHelp hit facts state = Inr res \<and> foundMatch res \<longrightarrow>
      runHelp (applyFirst (pre @ hit # post)) facts state = Inr res) \<and>
   ((\<forall>c \<in> set rs. \<exists>r. runHelp c facts state = Inr r \<and> \<not> foundMatch r) \<longrightarrow>
      runHelp (applyFirst rs) facts state = Inr state)"
proof (intro conjI impI)
  assume h: "(\<forall>c \<in> set pre. \<exists>r. runHelp c facts state = Inr r \<and> \<not> foundMatch r) \<and>
    runHelp hit facts state = Inr res \<and> foundMatch res"
  then have "runFirstMatchingRule (pre @ hit # post) facts state =
      runFirstMatchingRule (hit # post) facts state"
    using runFirst_skips_unmatched[of pre facts state "hit # post"] by simp
  with h show "runHelp (applyFirst (pre @ hit # post)) facts state = Inr res"
    by (simp add: applyFirst_def)
next
  assume "\<forall>c \<in> set rs. \<exists>r. runHelp c facts state = Inr r \<and> \<not> foundMatch r"
  then have "runFirstMatchingRule (rs @ []) facts state = runFirstMatchingRule [] facts state"
    by (rule runFirst_skips_unmatched)
  then show "runHelp (applyFirst rs) facts state = Inr state"
    by (simp add: applyFirst_def)
qed

theorem applyFirst_runHelp_witness:
  "(runHelp (makeRule False '' Miss!'') () \<lparr>foundMatch = False, value = ''Initial.''\<rparr>
      = (Inr \<lparr>foundMatch = False, value = ''Initial.''\<rparr> :: string failure + string RuleResult) \<and>
    \<not> foundMatch \<lparr>foundMatch = False, value = ''Initial.''\<rparr> \<and>
    runHelp (makeRule True '' Match!'') () \<lparr>foundMatch = False, value = ''Initial.''\<rparr>
      = (Inr \<lparr>foundMatch = True, value = ''Initial. Match!''\<rparr> :: string failure + string RuleResult) \<and>
    foundMatch \<lparr>foundMatch = True, value = ''Initial. Match!''\<rparr> \<and>
    runHelp (applyFirst ([makeRule False '' Miss!''] @ makeRule True '' Match!'' # [boomRule])) ()
        \<lparr>foundMatch = False, value = ''Initial.''\<rparr>
      = Inr \<lparr>foundMatch = True, value = ''Initial. Match!''\<rparr>) \<and>
   (runHelp (applyFirst [makeRule False '' Miss!'', makeRule False '' Miss!'']) ()
        \<lparr>foundMatch = False, value = ''Initial.''\<rparr>
      = (Inr \<lparr>foundMatch = False, value = ''Initial.''\<rparr> :: string failure + string RuleResult)) \<and>
   (runHelp (applyFirst []) () \<lparr>foundMatch = True, value = ''Initial.''\<rparr>
      = (Inr \<lparr>foundMatch = True, value = ''Initial.''\<rparr> :: string failure + string RuleResult))"
  using
    applyFirst_runHelp[of "[makeRule False '' Miss!''] :: (string, unit, string) Rule list" "()"
      "\<lparr>foundMatch = False, value = ''Initial.''\<rparr>" "makeRule True '' Match!''"
      "\<lparr>foundMatch = True, value = ''Initial. Match!''\<rparr>" "[boomRule]"
      "[makeRule False '' Miss!'', makeRule False '' Miss!'']"]
    applyFirst_runHelp[of "[] :: (string, unit, string) Rule list" "()"
      "\<lparr>foundMatch = True, value = ''Initial.''\<rparr>" "makeRule True '' Match!''"
      "\<lparr>foundMatch = True, value = ''Initial. Match!''\<rparr>" "[]" "[]"]
  by (simp add: fixtures applyFirst_def)

text \<open>
  C4 (the code departs from it). The claim: an all-node folds over its children in
  order, each child seeing the value the one before has produced, and the flag it
  returns is the disjunction of its children's flags; the comment above \<^verbatim>\<open>runHelp\<close>
  says the same (for \<^verbatim>\<open>"all"\<close> rules at least one matcher needs to have matched). The
  fold is seeded with the incoming state, flag included. Run on a state that is already
  matched, an all-node whose only child returns no match returns \<^verbatim>\<open>foundMatch = true\<close>.
  So a chain runs past an all-node that has matched nothing, where it stops at a plain
  rule that does not match; and a first-node inside an all-node stops at an all-node
  that has matched nothing, where it goes on after a plain rule that does not match.
\<close>

theorem applyAll_matched_without_match:
  "childResults [makeRule False ''x''] () \<lparr>foundMatch = True, value = ''a''\<rparr>
     = (Inr [\<lparr>foundMatch = False, value = ''a''\<rparr>] :: string failure + string RuleResult list) \<and>
   runHelp (applyAll [makeRule False ''x'']) () \<lparr>foundMatch = True, value = ''a''\<rparr>
     = (Inr \<lparr>foundMatch = True, value = ''a''\<rparr> :: string failure + string RuleResult) \<and>
   detailedRun
       (applyChain [makeRule True ''a'', applyAll [makeRule False ''x''], makeRule True ''c''])
       () ''''
     = (None :: string failure option, Some \<lparr>foundMatch = True, value = ''ac''\<rparr>) \<and>
   detailedRun
       (applyChain [makeRule True ''a'', makeRule False ''x'', makeRule True ''c''])
       () ''''
     = (None :: string failure option, Some \<lparr>foundMatch = True, value = ''a''\<rparr>) \<and>
   detailedRun
       (applyAll [makeRule True ''a'',
                  applyFirst [applyAll [makeRule False ''x''], makeRule True ''c'']])
       () ''''
     = (None :: string failure option, Some \<lparr>foundMatch = True, value = ''a''\<rparr>) \<and>
   detailedRun
       (applyAll [makeRule True ''a'',
                  applyFirst [makeRule False ''x'', makeRule True ''c'']])
       () ''''
     = (None :: string failure option, Some \<lparr>foundMatch = True, value = ''ac''\<rparr>)"
  by (simp add: fixtures detailedRun_def applyAll_def applyChain_def applyFirst_def)

text \<open>
  C5. A transformed node first evaluates its child on the current state. If the
  child's result is a match, the value of the result is the transformer applied to the
  child's value (or the transformer's error). If it is not a match, the child's result
  is returned as it is, whatever the transformer is: it is not called. An error of the
  child is passed on.
\<close>

theorem transformOutput_runHelp:
  "(runHelp r facts state = Inr res \<and> foundMatch res \<longrightarrow>
      runHelp (transformOutput fn r) facts state =
        (case fn (value res) of
           Inl e \<Rightarrow> Inl e
         | Inr v \<Rightarrow> Inr \<lparr>foundMatch = True, value = v\<rparr>)) \<and>
   (runHelp r facts state = Inr res \<and> \<not> foundMatch res \<longrightarrow>
      runHelp (transformOutput fn r) facts state = Inr res) \<and>
   (runHelp r facts state = Inl err \<longrightarrow>
      runHelp (transformOutput fn r) facts state = Inl err)"
  by (auto simp add: transformOutput_def split: sum.splits)

theorem transformOutput_runHelp_witness:
  "(runHelp (makeRule True ''original'') () \<lparr>foundMatch = False, value = ''''\<rparr>
      = Inr \<lparr>foundMatch = True, value = ''original''\<rparr> \<and>
    foundMatch \<lparr>foundMatch = True, value = ''original''\<rparr> \<and>
    runHelp (transformOutput (\<lambda>v. Inr ''transformed'') (makeRule True ''original'')) ()
        \<lparr>foundMatch = False, value = ''''\<rparr>
      = (Inr \<lparr>foundMatch = True, value = ''transformed''\<rparr> :: string failure + string RuleResult)) \<and>
   (runHelp (makeRule False ''original'') () \<lparr>foundMatch = False, value = ''original''\<rparr>
      = Inr \<lparr>foundMatch = False, value = ''original''\<rparr> \<and>
    \<not> foundMatch \<lparr>foundMatch = False, value = ''original''\<rparr> \<and>
    runHelp (transformOutput (\<lambda>v. Inl (Thrown ''never called'')) (makeRule False ''original'')) ()
        \<lparr>foundMatch = False, value = ''original''\<rparr>
      = (Inr \<lparr>foundMatch = False, value = ''original''\<rparr> :: string failure + string RuleResult))"
  using
    transformOutput_runHelp[of "makeRule True ''original''" "()"
      "\<lparr>foundMatch = False, value = ''''\<rparr>" "\<lparr>foundMatch = True, value = ''original''\<rparr>"
      "\<lambda>v. Inr ''transformed''"]
    transformOutput_runHelp[of "makeRule False ''original''" "()"
      "\<lparr>foundMatch = False, value = ''original''\<rparr>" "\<lparr>foundMatch = False, value = ''original''\<rparr>"
      "\<lambda>v. Inl (Thrown ''never called'')"]
  by (simp add: makeRule_def)

text \<open>
  C6. A conditional node first applies its matcher to the facts and the incoming
  value. If the matcher returns false, the result is \<^verbatim>\<open>{foundMatch: false, value: state.value}\<close>,
  whatever the child is: it is not evaluated. If the matcher returns true, the result
  is that of the child on the incoming state. An error of the matcher is passed on.
\<close>

theorem applyIf_runHelp:
  "(m facts (value state) = Inr False \<longrightarrow>
      runHelp (applyIf m r) facts state = Inr \<lparr>foundMatch = False, value = value state\<rparr>) \<and>
   (m facts (value state) = Inr True \<longrightarrow>
      runHelp (applyIf m r) facts state = runHelp r facts state) \<and>
   (m facts (value state) = Inl err \<longrightarrow>
      runHelp (applyIf m r) facts state = Inl err)"
  by (simp add: applyIf_def)

theorem applyIf_runHelp_witness:
  "(failMatcher () (value \<lparr>foundMatch = True, value = ''i am ''\<rparr>) = Inr False \<and>
    runHelp (applyIf failMatcher boomRule) () \<lparr>foundMatch = True, value = ''i am ''\<rparr>
      = Inr \<lparr>foundMatch = False, value = ''i am ''\<rparr>) \<and>
   (passMatcher () (value \<lparr>foundMatch = False, value = ''i am ''\<rparr>) = Inr True \<and>
    runHelp (applyIf passMatcher (makeRule True ''running'')) ()
        \<lparr>foundMatch = False, value = ''i am ''\<rparr>
      = (Inr \<lparr>foundMatch = True, value = ''i am running''\<rparr> :: string failure + string RuleResult))"
  using
    applyIf_runHelp[of failMatcher "()" "\<lparr>foundMatch = True, value = ''i am ''\<rparr>" boomRule]
    applyIf_runHelp[of passMatcher "()" "\<lparr>foundMatch = False, value = ''i am ''\<rparr>"
      "makeRule True ''running''"]
  by (simp add: makeRule_def passMatcher_def failMatcher_def)

text \<open>
  C7. If the evaluation of a node returns (no function of the caller has thrown) and
  its result is not a match, the value of the result is the value of the incoming
  state. The same holds of the three list evaluators.
\<close>

theorem unmatched_leaves_value:
  "(runHelp r facts state = Inr res \<and> \<not> foundMatch res \<longrightarrow> value res = value state) \<and>
   (runAllMatchingRules rs facts state = Inr res \<and> \<not> foundMatch res \<longrightarrow>
      value res = value state) \<and>
   (runFirstMatchingRule rs facts state = Inr res \<and> \<not> foundMatch res \<longrightarrow>
      value res = value state) \<and>
   (runChainOfRules rs facts state = Inr res \<and> \<not> foundMatch res \<longrightarrow>
      value res = value state)"
  using runHelp_unmatched_value[of r facts state res]
    runHelp_unmatched_value[of "AllRule rs" facts state res]
    runHelp_unmatched_value[of "FirstRule rs" facts state res]
    runHelp_unmatched_value[of "ChainRule rs" facts state res]
  by simp

theorem unmatched_leaves_value_witness:
  "runHelp (applyIf passMatcher (transformOutput (\<lambda>v. Inr ''transformed'') (makeRule False ''x''))) ()
       \<lparr>foundMatch = True, value = ''i''\<rparr>
     = (Inr \<lparr>foundMatch = False, value = ''i''\<rparr> :: string failure + string RuleResult) \<and>
   runAllMatchingRules [makeRule False ''x'', makeRule False ''y''] ()
       \<lparr>foundMatch = False, value = ''i''\<rparr>
     = (Inr \<lparr>foundMatch = False, value = ''i''\<rparr> :: string failure + string RuleResult) \<and>
   runFirstMatchingRule [makeRule False ''x'', makeRule False ''y''] ()
       \<lparr>foundMatch = False, value = ''i''\<rparr>
     = (Inr \<lparr>foundMatch = False, value = ''i''\<rparr> :: string failure + string RuleResult) \<and>
   runChainOfRules [makeRule False ''x'', boomRule] ()
       \<lparr>foundMatch = False, value = ''i''\<rparr>
     = (Inr \<lparr>foundMatch = False, value = ''i''\<rparr> :: string failure + string RuleResult) \<and>
   \<not> foundMatch \<lparr>foundMatch = False, value = ''i''\<rparr> \<and>
   value \<lparr>foundMatch = False, value = ''i''\<rparr> = value \<lparr>foundMatch = True, value = ''i''\<rparr>"
  using
    unmatched_leaves_value[of
      "applyIf passMatcher (transformOutput (\<lambda>v. Inr ''transformed'') (makeRule False ''x''))
         :: (string, unit, string) Rule"
      "()" "\<lparr>foundMatch = True, value = ''i''\<rparr>" "\<lparr>foundMatch = False, value = ''i''\<rparr>"
      "[]"]
  by (simp add: fixtures applyIf_def transformOutput_def)

text \<open>
  C10. A node whose \<^verbatim>\<open>type\<close> is none of the six tags of the \<^verbatim>\<open>switch\<close>, a missing tag
  included, is evaluated as a plain rule: its matcher is applied to the facts and the
  incoming value; on true the result is a match with the value its action returns, on
  false it is no match with the incoming value. No error is raised for the tag.
\<close>

theorem unknown_tag_runs_as_plain:
  "rule_type r \<notin> Some ` set recognised_tags \<Longrightarrow>
   runHelp r facts state =
     (case matcher r facts (value state) of
        Inl e \<Rightarrow> Inl e
      | Inr b \<Rightarrow>
          if b
          then (case action r facts (value state) of
                  Inl e \<Rightarrow> Inl e
                | Inr v \<Rightarrow> Inr \<lparr>foundMatch = True, value = v\<rparr>)
          else Inr \<lparr>foundMatch = False, value = value state\<rparr>)"
  by (cases r) (auto simp add: recognised_tags_def split: sum.splits)

theorem unknown_tag_runs_as_plain_witness:
  "rule_type (PlainRule (Some ''unknown'') passMatcher (\<lambda>facts v. Inr (v @ ''!'')))
       \<notin> Some ` set recognised_tags \<and>
   runHelp (PlainRule (Some ''unknown'') passMatcher (\<lambda>facts v. Inr (v @ ''!''))) ()
       \<lparr>foundMatch = False, value = ''hi''\<rparr>
     = (Inr \<lparr>foundMatch = True, value = ''hi!''\<rparr> :: string failure + string RuleResult) \<and>
   rule_type (PlainRule None failMatcher (\<lambda>facts v. Inr (v @ ''!'')))
       \<notin> Some ` set recognised_tags \<and>
   runHelp (PlainRule None failMatcher (\<lambda>facts v. Inr (v @ ''!''))) ()
       \<lparr>foundMatch = True, value = ''hi''\<rparr>
     = (Inr \<lparr>foundMatch = False, value = ''hi''\<rparr> :: string failure + string RuleResult)"
  using
    unknown_tag_runs_as_plain[of "PlainRule (Some ''unknown'') passMatcher (\<lambda>facts v. Inr (v @ ''!''))"
      "()" "\<lparr>foundMatch = False, value = ''hi''\<rparr>"]
    unknown_tag_runs_as_plain[of "PlainRule None failMatcher (\<lambda>facts v. Inr (v @ ''!''))"
      "()" "\<lparr>foundMatch = True, value = ''hi''\<rparr>"]
  by (simp add: recognised_tags_def passMatcher_def failMatcher_def)

end
